theory Spec2Isabelle
  imports Main "HOL-Library.Word"
begin

section \<open>Go values\<close>

text \<open>
  The listener controller of \<^verbatim>\<open>internal/alb/ls/listener.go\<close>, embedded function by
  function. A Go pointer is an \<open>option\<close> (\<open>None\<close> is \<^verbatim>\<open>nil\<close>), a Go slice is a
  list under an \<open>option\<close> (\<open>None\<close> is the \<^verbatim>\<open>nil\<close> slice, which Go tells apart from
  the empty one), an \<^verbatim>\<open>int64\<close> is a \<open>64 word\<close>. A Go \<^verbatim>\<open>error\<close> is its message;
  a function returning \<^verbatim>\<open>(T, error)\<close> returns the pair, the error being \<open>None\<close> for
  \<^verbatim>\<open>nil\<close>. A run-time panic is the left injection of the result.
  The \<^verbatim>\<open>context.Context\<close> argument is only handed on by the source and is left out.
\<close>

type_synonym error = string

datatype panic = NilPointerDereference | IndexOutOfRange

type_synonym 'a slice = "'a list option"

definition len :: "'a slice \<Rightarrow> nat" where
  "len s = (case s of None \<Rightarrow> 0 | Some xs \<Rightarrow> length xs)"

text \<open>\<^verbatim>\<open>s[0]\<close>: out of range on the nil slice and on the empty slice.\<close>

definition index0 :: "'a slice \<Rightarrow> panic + 'a" where
  "index0 s = (case s of None \<Rightarrow> Inl IndexOutOfRange
               | Some [] \<Rightarrow> Inl IndexOutOfRange
               | Some (x # _) \<Rightarrow> Inr x)"

text \<open>\<^verbatim>\<open>fmt.Errorf(prefix + "%v", err)\<close>: the prefix followed by the message of \<open>err\<close>.\<close>

definition Errorf :: "string \<Rightarrow> error \<Rightarrow> error" where
  "Errorf prefix err = prefix @ err"

subsection \<open>\<^verbatim>\<open>strconv.Itoa\<close>\<close>

text \<open>The digit of a value below ten, read from the table of digits.\<close>

definition digit :: "nat \<Rightarrow> char" where
  "digit d = ''0123456789'' ! d"

function digits :: "nat \<Rightarrow> string" where
  "digits n = (if n < 10 then [digit n] else digits (n div 10) @ [digit (n mod 10)])"
  by pat_completeness auto
termination
  by (relation "measure (\<lambda>n. n)") auto

declare digits.simps [simp del]

definition Itoa :: "int \<Rightarrow> string" where
  "Itoa i = (if i < 0 then CHR ''-'' # digits (nat (- i)) else digits (nat i))"

section \<open>The data model\<close>

subsection \<open>Kubernetes: \<^verbatim>\<open>intstr.IntOrString\<close>, \<^verbatim>\<open>extensions.IngressBackend\<close>\<close>

datatype intstr_Type = intstr_Int | intstr_String

record IntOrString =
  IntOrString_Type :: intstr_Type
  IntOrString_IntVal :: "32 word"
  IntOrString_StrVal :: string

text \<open>\<^verbatim>\<open>IntOrString.String()\<close>: the string value, or the decimal form of the integer.\<close>

definition IntOrString_String :: "IntOrString \<Rightarrow> string" where
  "IntOrString_String p =
     (if IntOrString_Type p = intstr_String then IntOrString_StrVal p
      else Itoa (sint (IntOrString_IntVal p)))"

record IngressBackend =
  ServiceName :: string
  ServicePort :: IntOrString

record IngressSpec =
  Backend :: "IngressBackend option"

record extensions_Ingress =
  Spec :: IngressSpec

subsection \<open>The AWS SDK: \<^verbatim>\<open>elbv2\<close>\<close>

definition elbv2_ProtocolEnumHttps :: string where
  "elbv2_ProtocolEnumHttps = ''HTTPS''"

definition elbv2_ActionTypeEnumForward :: string where
  "elbv2_ActionTypeEnumForward = ''forward''"

record elbv2_Certificate =
  Certificate_CertificateArn :: "string option"
  Certificate_IsDefault :: "bool option"

record elbv2_FixedResponseActionConfig =
  FixedResponse_ContentType :: "string option"
  FixedResponse_MessageBody :: "string option"
  FixedResponse_StatusCode :: "string option"

record elbv2_RedirectActionConfig =
  Redirect_Host :: "string option"
  Redirect_Path :: "string option"
  Redirect_Port :: "string option"
  Redirect_Protocol :: "string option"
  Redirect_Query :: "string option"
  Redirect_StatusCode :: "string option"

text \<open>
  An action of a listener. The source sets \<open>Type\<close> and \<open>TargetGroupArn\<close> and leaves
  every other field of the struct at its zero value \<^verbatim>\<open>nil\<close>.
\<close>

record elbv2_Action =
  Action_Type :: "string option"
  Action_TargetGroupArn :: "string option"
  Action_Order :: "64 word option"
  Action_FixedResponseConfig :: "elbv2_FixedResponseActionConfig option"
  Action_RedirectConfig :: "elbv2_RedirectActionConfig option"

record elbv2_Listener =
  Listener_Certificates :: "elbv2_Certificate option slice"
  Listener_DefaultActions :: "elbv2_Action option slice"
  Listener_ListenerArn :: "string option"
  Listener_LoadBalancerArn :: "string option"
  Listener_Port :: "64 word option"
  Listener_Protocol :: "string option"
  Listener_SslPolicy :: "string option"

record elbv2_CreateListenerInput =
  Create_LoadBalancerArn :: "string option"
  Create_Port :: "64 word option"
  Create_Protocol :: "string option"
  Create_Certificates :: "elbv2_Certificate option slice"
  Create_SslPolicy :: "string option"
  Create_DefaultActions :: "elbv2_Action option slice"

record elbv2_ModifyListenerInput =
  Modify_ListenerArn :: "string option"
  Modify_Port :: "64 word option"
  Modify_Protocol :: "string option"
  Modify_Certificates :: "elbv2_Certificate option slice"
  Modify_SslPolicy :: "string option"
  Modify_DefaultActions :: "elbv2_Action option slice"

text \<open>
  \<^verbatim>\<open>CreateListenerOutput\<close> and \<^verbatim>\<open>ModifyListenerOutput\<close>: the source reads
  \<^verbatim>\<open>Listeners[0]\<close> of either.
\<close>

record elbv2_CreateListenerOutput =
  Create_Listeners :: "elbv2_Listener option slice"

record elbv2_ModifyListenerOutput =
  Modify_Listeners :: "elbv2_Listener option slice"

subsection \<open>The controller's own packages\<close>

text \<open>
  The declarations of \<^verbatim>\<open>annotations.Ingress\<close>, \<^verbatim>\<open>loadbalancer.PortData\<close> and
  \<^verbatim>\<open>tg.TargetGroupGroup\<close> are outside the file; the records hold the fields that the
  file reads, with the types it reads them at. \<^verbatim>\<open>Action.GetAction\<close> is a lookup
  in the annotation set and is part of the request, as a function.
\<close>

record listener_Config =
  Config_SslPolicy :: "string option"
  Config_CertificateArn :: "string option"

record action_Config =
  GetAction :: "string \<Rightarrow> elbv2_Action option \<times> error option"

record annotations_Ingress =
  Action :: action_Config
  Listener :: listener_Config

record loadbalancer_PortData =
  PortData_Port :: "64 word"
  PortData_Scheme :: string

record tg_TargetGroup =
  Arn :: string

record tg_TargetGroupGroup =
  TGByBackend :: "IngressBackend \<rightharpoonup> tg_TargetGroup"

record ReconcileOptions =
  LBArn :: string
  Ingress :: "extensions_Ingress option"
  IngressAnnos :: "annotations_Ingress option"
  Port :: loadbalancer_PortData
  TGGroup :: tg_TargetGroupGroup
  Instance :: "elbv2_Listener option"

record listenerConfig =
  listenerConfig_Port :: "64 word option"
  listenerConfig_Protocol :: "string option"
  listenerConfig_SslPolicy :: "string option"
  listenerConfig_Certificates :: "elbv2_Certificate option slice"
  listenerConfig_DefaultActions :: "elbv2_Action option slice"

text \<open>
  Package \<^verbatim>\<open>action\<close> is outside the file: its fallback backend
  \<^verbatim>\<open>Default404Backend()\<close> and its test \<^verbatim>\<open>Use\<close> for the reserved port name are
  parameters of the model.
\<close>

record action_package =
  Default404Backend :: IngressBackend
  Use :: "string \<Rightarrow> bool"

section \<open>The default actions\<close>

text \<open>
  \<^verbatim>\<open>buildDefaultActions\<close>: the default backend of the ingress, or the fallback
  backend when there is none; a custom action from the annotations when the port of
  the backend is the reserved name, a forward action to the target group of the
  backend otherwise.
\<close>

definition buildDefaultActions ::
  "action_package \<Rightarrow> ReconcileOptions \<Rightarrow> panic + (elbv2_Action option slice \<times> error option)" where
  "buildDefaultActions pkg options =
     (case Ingress options of
        None \<Rightarrow> Inl NilPointerDereference
      | Some ingress \<Rightarrow>
          (let defaultBackend =
                 (case Backend (Spec ingress) of
                    None \<Rightarrow> Default404Backend pkg
                  | Some b \<Rightarrow> b)
           in if Use pkg (IntOrString_String (ServicePort defaultBackend)) then
                (case IngressAnnos options of
                   None \<Rightarrow> Inl NilPointerDereference
                 | Some annos \<Rightarrow>
                     (case GetAction (Action annos) (ServiceName defaultBackend) of
                        (action, Some err) \<Rightarrow> Inr (None, Some err)
                      | (action, None) \<Rightarrow> Inr (Some [action], None)))
              else
                (case TGByBackend (TGGroup options) defaultBackend of
                   None \<Rightarrow>
                     Inr (None,
                          Some (''unable to find targetGroup for backend ''
                                @ ServiceName defaultBackend @ '':''
                                @ IntOrString_String (ServicePort defaultBackend)))
                 | Some targetGroup \<Rightarrow>
                     Inr (Some [Some \<lparr>Action_Type = Some elbv2_ActionTypeEnumForward,
                                      Action_TargetGroupArn = Some (Arn targetGroup),
                                      Action_Order = None,
                                      Action_FixedResponseConfig = None,
                                      Action_RedirectConfig = None\<rparr>],
                          None))))"

section \<open>The listener configuration\<close>

text \<open>
  \<^verbatim>\<open>buildListenerConfig\<close>: port and protocol from the port of the request, the
  certificate and the SSL policy from the annotations when the scheme is HTTPS, the
  default actions from \<open>buildDefaultActions\<close>. On an error of the latter the source
  returns the configuration built so far together with the error.
\<close>

definition buildListenerConfig ::
  "action_package \<Rightarrow> ReconcileOptions \<Rightarrow> panic + (listenerConfig \<times> error option)" where
  "buildListenerConfig pkg options =
     (let config = \<lparr>listenerConfig_Port = Some (PortData_Port (Port options)),
                    listenerConfig_Protocol = Some (PortData_Scheme (Port options)),
                    listenerConfig_SslPolicy = None,
                    listenerConfig_Certificates = None,
                    listenerConfig_DefaultActions = None\<rparr>
      in case (if PortData_Scheme (Port options) = elbv2_ProtocolEnumHttps then
                 (case IngressAnnos options of
                    None \<Rightarrow> Inl NilPointerDereference
                  | Some annos \<Rightarrow>
                      (let config =
                             (if Config_CertificateArn (Listener annos) \<noteq> None then
                                config\<lparr>listenerConfig_Certificates :=
                                  Some [Some \<lparr>Certificate_CertificateArn =
                                                Config_CertificateArn (Listener annos),
                                              Certificate_IsDefault = Some True\<rparr>]\<rparr>
                              else config);
                           config =
                             (if Config_SslPolicy (Listener annos) \<noteq> None then
                                config\<lparr>listenerConfig_SslPolicy :=
                                  Config_SslPolicy (Listener annos)\<rparr>
                              else config)
                       in Inr config))
               else Inr config) of
           Inl p \<Rightarrow> Inl p
         | Inr config \<Rightarrow>
             (case buildDefaultActions pkg options of
                Inl p \<Rightarrow> Inl p
              | Inr (actions, Some err) \<Rightarrow> Inr (config, Some err)
              | Inr (actions, None) \<Rightarrow>
                  Inr (config\<lparr>listenerConfig_DefaultActions := actions\<rparr>, None)))"

section \<open>Drift\<close>

text \<open>
  Modelled from the spec: \<^verbatim>\<open>util.DeepEqual\<close> (package \<^verbatim>\<open>pkg/util/types\<close>) is outside
  the file. The drift evaluator of the spec compares by deep structural equality
  including order; on the values above (pointers as options, slices as optional lists,
  structs as records) that is equality.
\<close>

definition DeepEqual :: "'a \<Rightarrow> 'a \<Rightarrow> bool" where
  "DeepEqual a b = (a = b)"

datatype field = Field_Port | Field_Protocol | Field_Certificates | Field_SslPolicy
  | Field_DefaultActions

text \<open>
  One \<^verbatim>\<open>if !util.DeepEqual(...) { needModification = true }\<close> statement: the flag is
  raised when the comparison fails and kept otherwise. The second component lists the
  fields compared so far, in the order of the comparisons.
\<close>

definition check :: "field \<Rightarrow> bool \<Rightarrow> bool \<times> field list \<Rightarrow> bool \<times> field list" where
  "check f equal st =
     (case st of (needModification, compared) \<Rightarrow>
        (if \<not> equal then True else needModification, compared @ [f]))"

text \<open>
  The body of \<^verbatim>\<open>LSInstanceNeedsModification\<close>: five such statements in a row, with no
  return between them. The instance is dereferenced by the first of them; the only
  caller passes an instance that it has tested against \<^verbatim>\<open>nil\<close>.
\<close>

definition LSInstanceNeedsModification_checks ::
  "elbv2_Listener \<Rightarrow> listenerConfig \<Rightarrow> bool \<times> field list" where
  "LSInstanceNeedsModification_checks instance config =
     (let st = (False, []);
          st = check Field_Port
                 (DeepEqual (Listener_Port instance) (listenerConfig_Port config)) st;
          st = check Field_Protocol
                 (DeepEqual (Listener_Protocol instance) (listenerConfig_Protocol config)) st;
          st = check Field_Certificates
                 (DeepEqual (Listener_Certificates instance)
                    (listenerConfig_Certificates config)) st;
          st = check Field_SslPolicy
                 (DeepEqual (Listener_SslPolicy instance) (listenerConfig_SslPolicy config)) st;
          st = check Field_DefaultActions
                 (DeepEqual (Listener_DefaultActions instance)
                    (listenerConfig_DefaultActions config)) st
      in st)"

definition LSInstanceNeedsModification :: "elbv2_Listener \<Rightarrow> listenerConfig \<Rightarrow> bool" where
  "LSInstanceNeedsModification instance config =
     fst (LSInstanceNeedsModification_checks instance config)"

section \<open>The collaborators and the calls made to them\<close>

text \<open>
  The controller calls the cloud API and the rule controller. Every call is appended to
  a log. The collaborators are outside the file and are parameters of the model: what
  one answers may depend on its argument and on the calls made before.
\<close>

datatype call =
    Call_CreateListener elbv2_CreateListenerInput
  | Call_ModifyListener elbv2_ModifyListenerInput
  | Call_RulesReconcile "elbv2_Listener option" "extensions_Ingress option"
      "annotations_Ingress option" tg_TargetGroupGroup

record aws_CloudAPI =
  CreateListenerWithContext ::
    "call list \<Rightarrow> elbv2_CreateListenerInput \<Rightarrow> elbv2_CreateListenerOutput option \<times> error option"
  ModifyListenerWithContext ::
    "call list \<Rightarrow> elbv2_ModifyListenerInput \<Rightarrow> elbv2_ModifyListenerOutput option \<times> error option"

record rs_Controller =
  rs_Reconcile ::
    "call list \<Rightarrow> elbv2_Listener option \<Rightarrow> extensions_Ingress option \<Rightarrow>
       annotations_Ingress option \<Rightarrow> tg_TargetGroupGroup \<Rightarrow> error option"

record defaultController =
  cloud :: aws_CloudAPI
  rulesController :: rs_Controller

definition isModify :: "call \<Rightarrow> bool" where
  "isModify c = (case c of Call_ModifyListener _ \<Rightarrow> True | _ \<Rightarrow> False)"

section \<open>Creating and updating the listener\<close>

text \<open>The input structs of the two cloud calls, as the source fills them.\<close>

definition CreateListenerInput ::
  "string \<Rightarrow> listenerConfig \<Rightarrow> elbv2_CreateListenerInput" where
  "CreateListenerInput lbArn config =
     \<lparr>Create_LoadBalancerArn = Some lbArn,
      Create_Port = listenerConfig_Port config,
      Create_Protocol = listenerConfig_Protocol config,
      Create_Certificates = listenerConfig_Certificates config,
      Create_SslPolicy = listenerConfig_SslPolicy config,
      Create_DefaultActions = listenerConfig_DefaultActions config\<rparr>"

definition ModifyListenerInput ::
  "elbv2_Listener \<Rightarrow> listenerConfig \<Rightarrow> elbv2_ModifyListenerInput" where
  "ModifyListenerInput instance config =
     \<lparr>Modify_ListenerArn = Listener_ListenerArn instance,
      Modify_Port = listenerConfig_Port config,
      Modify_Protocol = listenerConfig_Protocol config,
      Modify_Certificates = listenerConfig_Certificates config,
      Modify_SslPolicy = listenerConfig_SslPolicy config,
      Modify_DefaultActions = listenerConfig_DefaultActions config\<rparr>"

definition newLSInstance ::
  "defaultController \<Rightarrow> string \<Rightarrow> listenerConfig \<Rightarrow> call list \<Rightarrow>
     (panic + (elbv2_Listener option \<times> error option)) \<times> call list" where
  "newLSInstance controller lbArn config calls =
     (let input = CreateListenerInput lbArn config;
          calls' = calls @ [Call_CreateListener input]
      in case CreateListenerWithContext (cloud controller) calls input of
           (resp, Some err) \<Rightarrow> (Inr (None, Some err), calls')
         | (None, None) \<Rightarrow> (Inl NilPointerDereference, calls')
         | (Some resp, None) \<Rightarrow>
             (case index0 (Create_Listeners resp) of
                Inl p \<Rightarrow> (Inl p, calls')
              | Inr listener \<Rightarrow> (Inr (listener, None), calls')))"

definition reconcileLSInstance ::
  "defaultController \<Rightarrow> elbv2_Listener \<Rightarrow> listenerConfig \<Rightarrow> call list \<Rightarrow>
     (panic + (elbv2_Listener option \<times> error option)) \<times> call list" where
  "reconcileLSInstance controller instance config calls =
     (if LSInstanceNeedsModification instance config then
        (let input = ModifyListenerInput instance config;
             calls' = calls @ [Call_ModifyListener input]
         in case ModifyListenerWithContext (cloud controller) calls input of
              (output, Some err) \<Rightarrow> (Inr (Some instance, Some err), calls')
            | (None, None) \<Rightarrow> (Inl NilPointerDereference, calls')
            | (Some output, None) \<Rightarrow>
                (case index0 (Modify_Listeners output) of
                   Inl p \<Rightarrow> (Inl p, calls')
                 | Inr listener \<Rightarrow> (Inr (listener, None), calls')))
      else (Inr (Some instance, None), calls))"

section \<open>Reconcile\<close>

text \<open>
  \<^verbatim>\<open>Reconcile\<close> returns an \<^verbatim>\<open>error\<close> and nothing else: \<open>Inr None\<close> is the
  \<^verbatim>\<open>nil\<close> of a successful run. The listener stage is the \<^verbatim>\<open>if instance == nil\<close>
  statement of the source, each branch with its own wrapping of the error.
\<close>

definition listenerStage ::
  "defaultController \<Rightarrow> ReconcileOptions \<Rightarrow> listenerConfig \<Rightarrow> call list \<Rightarrow>
     (panic + (elbv2_Listener option \<times> error option)) \<times> call list" where
  "listenerStage controller options config calls =
     (case Instance options of
        None \<Rightarrow>
          (case newLSInstance controller (LBArn options) config calls of
             (Inr (instance, Some err), calls') \<Rightarrow>
               (Inr (instance, Some (Errorf ''failed to create listener due to '' err)), calls')
           | r \<Rightarrow> r)
      | Some instance \<Rightarrow>
          (case reconcileLSInstance controller instance config calls of
             (Inr (instance, Some err), calls') \<Rightarrow>
               (Inr (instance, Some (Errorf ''failed to reconcile listener due to '' err)), calls')
           | r \<Rightarrow> r))"

definition Reconcile ::
  "defaultController \<Rightarrow> action_package \<Rightarrow> ReconcileOptions \<Rightarrow> call list \<Rightarrow>
     (panic + error option) \<times> call list" where
  "Reconcile controller pkg options calls =
     (case buildListenerConfig pkg options of
        Inl p \<Rightarrow> (Inl p, calls)
      | Inr (config, Some err) \<Rightarrow>
          (Inr (Some (Errorf ''failed to build listener config due to '' err)), calls)
      | Inr (config, None) \<Rightarrow>
          (case listenerStage controller options config calls of
             (Inl p, calls') \<Rightarrow> (Inl p, calls')
           | (Inr (instance, Some err), calls') \<Rightarrow> (Inr (Some err), calls')
           | (Inr (instance, None), calls') \<Rightarrow>
               (let calls'' = calls' @ [Call_RulesReconcile instance (Ingress options)
                                          (IngressAnnos options) (TGGroup options)]
                in case rs_Reconcile (rulesController controller) calls' instance
                          (Ingress options) (IngressAnnos options) (TGGroup options) of
                     Some err \<Rightarrow>
                       (Inr (Some (Errorf ''failed to reconcile rules due to '' err)), calls'')
                   | None \<Rightarrow> (Inr None, calls''))))"

section \<open>Example requests\<close>

text \<open>
  The scenarios of the specification: a backend \<open>svcA:8080\<close> resolved to the target
  group \<open>tg-1\<close>, a request for HTTP on port 80 and one for HTTPS on port 443 with the
  certificate \<open>cert-1\<close>, and a cloud that answers every call with the listener it was
  asked for.
\<close>

definition ex_backend :: IngressBackend where
  "ex_backend = \<lparr>ServiceName = ''svcA'',
                  ServicePort = \<lparr>IntOrString_Type = intstr_Int, IntOrString_IntVal = 8080,
                                 IntOrString_StrVal = []\<rparr>\<rparr>"

definition ex_package :: action_package where
  "ex_package =
     \<lparr>Default404Backend =
        \<lparr>ServiceName = ''Default 404'',
         ServicePort = \<lparr>IntOrString_Type = intstr_String, IntOrString_IntVal = 0,
                        IntOrString_StrVal = ''use-annotation''\<rparr>\<rparr>,
      Use = (\<lambda>s. s = ''use-annotation'')\<rparr>"

definition ex_404 :: elbv2_Action where
  "ex_404 = \<lparr>Action_Type = Some ''fixed-response'', Action_TargetGroupArn = None,
             Action_Order = None,
             Action_FixedResponseConfig =
               Some \<lparr>FixedResponse_ContentType = Some ''text/plain'',
                     FixedResponse_MessageBody = None,
                     FixedResponse_StatusCode = Some ''404''\<rparr>,
             Action_RedirectConfig = None\<rparr>"

definition ex_annos :: annotations_Ingress where
  "ex_annos =
     \<lparr>Action = \<lparr>GetAction = (\<lambda>name. if name = ''Default 404'' then (Some ex_404, None)
                                     else (None, Some (''no action for '' @ name)))\<rparr>,
      Listener = \<lparr>Config_SslPolicy = None, Config_CertificateArn = Some ''cert-1''\<rparr>\<rparr>"

definition ex_forward :: elbv2_Action where
  "ex_forward = \<lparr>Action_Type = Some ''forward'', Action_TargetGroupArn = Some ''tg-1'',
                 Action_Order = None, Action_FixedResponseConfig = None,
                 Action_RedirectConfig = None\<rparr>"

definition ex_request :: ReconcileOptions where
  "ex_request =
     \<lparr>LBArn = ''lb-1'',
      Ingress = Some \<lparr>Spec = \<lparr>Backend = Some ex_backend\<rparr>\<rparr>,
      IngressAnnos = Some ex_annos,
      Port = \<lparr>PortData_Port = 80, PortData_Scheme = ''HTTP''\<rparr>,
      TGGroup = \<lparr>TGByBackend = [ex_backend \<mapsto> \<lparr>Arn = ''tg-1''\<rparr>]\<rparr>,
      Instance = None\<rparr>"

definition ex_config :: listenerConfig where
  "ex_config = \<lparr>listenerConfig_Port = Some 80, listenerConfig_Protocol = Some ''HTTP'',
                listenerConfig_SslPolicy = None, listenerConfig_Certificates = None,
                listenerConfig_DefaultActions = Some [Some ex_forward]\<rparr>"

definition ex_listener :: "string \<Rightarrow> 64 word \<Rightarrow> elbv2_Listener" where
  "ex_listener arn port =
     \<lparr>Listener_Certificates = None, Listener_DefaultActions = Some [Some ex_forward],
      Listener_ListenerArn = Some arn, Listener_LoadBalancerArn = Some ''lb-1'',
      Listener_Port = Some port, Listener_Protocol = Some ''HTTP'',
      Listener_SslPolicy = None\<rparr>"

definition ex_cloud :: aws_CloudAPI where
  "ex_cloud =
     \<lparr>CreateListenerWithContext = (\<lambda>calls input.
        (Some \<lparr>Create_Listeners = Some [Some
           \<lparr>Listener_Certificates = Create_Certificates input,
            Listener_DefaultActions = Create_DefaultActions input,
            Listener_ListenerArn = Some ''ls-new'',
            Listener_LoadBalancerArn = Create_LoadBalancerArn input,
            Listener_Port = Create_Port input,
            Listener_Protocol = Create_Protocol input,
            Listener_SslPolicy = Create_SslPolicy input\<rparr>]\<rparr>, None)),
      ModifyListenerWithContext = (\<lambda>calls input.
        (Some \<lparr>Modify_Listeners = Some [Some
           \<lparr>Listener_Certificates = Modify_Certificates input,
            Listener_DefaultActions = Modify_DefaultActions input,
            Listener_ListenerArn = Modify_ListenerArn input,
            Listener_LoadBalancerArn = Some ''lb-1'',
            Listener_Port = Modify_Port input,
            Listener_Protocol = Modify_Protocol input,
            Listener_SslPolicy = Modify_SslPolicy input\<rparr>]\<rparr>, None))\<rparr>"

definition ex_controller :: "error option \<Rightarrow> defaultController" where
  "ex_controller rulesAnswer =
     \<lparr>cloud = ex_cloud,
      rulesController = \<lparr>rs_Reconcile = (\<lambda>calls instance ingress annos tgGroup. rulesAnswer)\<rparr>\<rparr>"

text \<open>The request with an existing listener, and the one whose backend is unresolved.\<close>

definition ex_existing :: "string \<Rightarrow> 64 word \<Rightarrow> ReconcileOptions" where
  "ex_existing arn port = ex_request\<lparr>Instance := Some (ex_listener arn port)\<rparr>"

definition ex_unresolved :: ReconcileOptions where
  "ex_unresolved = ex_request\<lparr>TGGroup := \<lparr>TGByBackend = Map.empty\<rparr>\<rparr>"

definition ex_no_backend :: ReconcileOptions where
  "ex_no_backend = ex_request\<lparr>Ingress := Some \<lparr>Spec = \<lparr>Backend = None\<rparr>\<rparr>\<rparr>"

definition ex_https :: ReconcileOptions where
  "ex_https = ex_request\<lparr>Port := \<lparr>PortData_Port = 443, PortData_Scheme = ''HTTPS''\<rparr>\<rparr>"

section \<open>Evaluating the examples\<close>

lemmas ex_defs = ex_backend_def ex_package_def ex_404_def ex_annos_def ex_forward_def
  ex_request_def ex_config_def ex_listener_def ex_cloud_def ex_controller_def
  ex_existing_def ex_unresolved_def ex_no_backend_def ex_https_def

lemmas eval_defs = buildListenerConfig_def buildDefaultActions_def
  IntOrString_String_def Itoa_def digits.simps digit_def
  elbv2_ProtocolEnumHttps_def elbv2_ActionTypeEnumForward_def

lemma ex_existing_fields:
  "Instance (ex_existing arn port) = Some (ex_listener arn port)"
  "Ingress (ex_existing arn port) = Ingress ex_request"
  "IngressAnnos (ex_existing arn port) = IngressAnnos ex_request"
  "TGGroup (ex_existing arn port) = TGGroup ex_request"
  "LBArn (ex_existing arn port) = LBArn ex_request"
  by (simp_all add: ex_existing_def)

lemma ex_request_actions:
  "buildDefaultActions ex_package ex_request = Inr (Some [Some ex_forward], None)"
  by (simp add: eval_defs ex_defs)

lemma ex_no_backend_actions:
  "buildDefaultActions ex_package ex_no_backend = Inr (Some [Some ex_404], None)"
  by (simp add: eval_defs ex_defs)

lemma ex_unresolved_actions:
  "buildDefaultActions ex_package ex_unresolved =
     Inr (None, Some ''unable to find targetGroup for backend svcA:8080'')"
  by (simp add: eval_defs ex_defs)

lemma ex_build_request: "buildListenerConfig ex_package ex_request = Inr (ex_config, None)"
  by (simp add: eval_defs ex_defs)

lemma ex_build: "buildListenerConfig ex_package (ex_existing arn port) = Inr (ex_config, None)"
  by (simp add: eval_defs ex_defs)


section \<open>Drift detection\<close>

lemma needs_modification_iff:
  "LSInstanceNeedsModification instance config \<longleftrightarrow>
     \<not> (DeepEqual (Listener_Port instance) (listenerConfig_Port config)
      \<and> DeepEqual (Listener_Protocol instance) (listenerConfig_Protocol config)
      \<and> DeepEqual (Listener_Certificates instance) (listenerConfig_Certificates config)
      \<and> DeepEqual (Listener_SslPolicy instance) (listenerConfig_SslPolicy config)
      \<and> DeepEqual (Listener_DefaultActions instance) (listenerConfig_DefaultActions config))"
  by (simp add: LSInstanceNeedsModification_def LSInstanceNeedsModification_checks_def
      check_def)

text \<open>
  C3. \<^verbatim>\<open>LSInstanceNeedsModification\<close> answers true exactly when one of the five
  fields (port, protocol, certificates, SSL policy, default actions) of the observed
  listener is not deeply equal to that of the configuration; and all five comparisons
  are made, in this order, whatever the earlier ones gave.
\<close>

theorem LSInstanceNeedsModification_iff:
  "(LSInstanceNeedsModification instance config \<longleftrightarrow>
      \<not> DeepEqual (Listener_Port instance) (listenerConfig_Port config)
    \<or> \<not> DeepEqual (Listener_Protocol instance) (listenerConfig_Protocol config)
    \<or> \<not> DeepEqual (Listener_Certificates instance) (listenerConfig_Certificates config)
    \<or> \<not> DeepEqual (Listener_SslPolicy instance) (listenerConfig_SslPolicy config)
    \<or> \<not> DeepEqual (Listener_DefaultActions instance) (listenerConfig_DefaultActions config))
   \<and> snd (LSInstanceNeedsModification_checks instance config) =
       [Field_Port, Field_Protocol, Field_Certificates, Field_SslPolicy, Field_DefaultActions]"
  by (simp add: LSInstanceNeedsModification_def LSInstanceNeedsModification_checks_def
      check_def)

theorem LSInstanceNeedsModification_iff_witness:
  "LSInstanceNeedsModification (ex_listener ''ls-1'' 8080) ex_config
   \<and> \<not> DeepEqual (Listener_Port (ex_listener ''ls-1'' 8080)) (listenerConfig_Port ex_config)
   \<and> \<not> LSInstanceNeedsModification (ex_listener ''ls-1'' 80) ex_config"
  using LSInstanceNeedsModification_iff [of "ex_listener ''ls-1'' 8080" ex_config]
    LSInstanceNeedsModification_iff [of "ex_listener ''ls-1'' 80" ex_config]
  by (simp add: DeepEqual_def ex_listener_def ex_config_def)

section \<open>The default actions\<close>

text \<open>
  C4. Whenever \<^verbatim>\<open>buildDefaultActions\<close> succeeds, the list of actions it returns is
  not empty. When the ingress has no default backend, the builder does what it does for
  the same request with the fallback backend of package \<^verbatim>\<open>action\<close> as its default
  backend, so the result is not empty there either.
\<close>

theorem buildDefaultActions_nonempty:
  "(buildDefaultActions pkg options = Inr (actions, None) \<longrightarrow> 0 < len actions)
   \<and> (Ingress options = Some ingress \<and> Backend (Spec ingress) = None \<longrightarrow>
        buildDefaultActions pkg options =
        buildDefaultActions pkg
          (options\<lparr>Ingress := Some (ingress\<lparr>Spec := (Spec ingress)\<lparr>Backend :=
             Some (Default404Backend pkg)\<rparr>\<rparr>)\<rparr>))"
  by (auto simp: buildDefaultActions_def len_def Let_def
      split: option.splits if_splits prod.splits)

theorem buildDefaultActions_nonempty_witness:
  "buildDefaultActions ex_package ex_no_backend = Inr (Some [Some ex_404], None)
   \<and> 0 < len (Some [Some ex_404])
   \<and> Ingress ex_no_backend = Some \<lparr>Spec = \<lparr>Backend = None\<rparr>\<rparr>
   \<and> buildDefaultActions ex_package ex_no_backend =
       buildDefaultActions ex_package
         (ex_no_backend\<lparr>Ingress :=
            Some \<lparr>Spec = \<lparr>Backend = Some (Default404Backend ex_package)\<rparr>\<rparr>\<rparr>)"
proof -
  have i: "Ingress ex_no_backend = Some \<lparr>Spec = \<lparr>Backend = None\<rparr>\<rparr>"
    by (simp add: ex_no_backend_def)
  show ?thesis
    using buildDefaultActions_nonempty [of ex_package ex_no_backend "Some [Some ex_404]"
        "\<lparr>Spec = \<lparr>Backend = None\<rparr>\<rparr>"] ex_no_backend_actions i
    by simp
qed

text \<open>
  C5. When the default backend of the request (the fallback backend, when the ingress has
  none) does not carry the reserved port name and is not a key of the target-group map,
  \<^verbatim>\<open>buildDefaultActions\<close> returns no action at all, and the error whose message
  names the service name and the service port of the backend.
\<close>

theorem buildDefaultActions_unresolved:
  assumes "Ingress options = Some ingress"
    and "defaultBackend =
           (case Backend (Spec ingress) of None \<Rightarrow> Default404Backend pkg | Some b \<Rightarrow> b)"
    and "\<not> Use pkg (IntOrString_String (ServicePort defaultBackend))"
    and "TGByBackend (TGGroup options) defaultBackend = None"
  shows "buildDefaultActions pkg options =
     Inr (None, Some (''unable to find targetGroup for backend '' @ ServiceName defaultBackend
                       @ '':'' @ IntOrString_String (ServicePort defaultBackend)))"
  using assms by (simp add: buildDefaultActions_def Let_def)

theorem buildDefaultActions_unresolved_witness:
  "Ingress ex_unresolved = Some \<lparr>Spec = \<lparr>Backend = Some ex_backend\<rparr>\<rparr>
   \<and> \<not> Use ex_package (IntOrString_String (ServicePort ex_backend))
   \<and> TGByBackend (TGGroup ex_unresolved) ex_backend = None
   \<and> buildDefaultActions ex_package ex_unresolved =
       Inr (None, Some ''unable to find targetGroup for backend svcA:8080'')"
proof -
  have i: "Ingress ex_unresolved = Some \<lparr>Spec = \<lparr>Backend = Some ex_backend\<rparr>\<rparr>"
    by (simp add: ex_unresolved_def ex_request_def)
  have b: "ex_backend = (case Backend (Spec \<lparr>Spec = \<lparr>Backend = Some ex_backend\<rparr>\<rparr>) of
                           None \<Rightarrow> Default404Backend ex_package | Some b \<Rightarrow> b)"
    by simp
  have s: "IntOrString_String (ServicePort ex_backend) = ''8080''"
    by (simp add: ex_backend_def IntOrString_String_def Itoa_def digits.simps digit_def)
  have u: "\<not> Use ex_package (IntOrString_String (ServicePort ex_backend))"
    by (simp add: s ex_package_def)
  have t: "TGByBackend (TGGroup ex_unresolved) ex_backend = None"
    by (simp add: ex_unresolved_def)
  have n: "ServiceName ex_backend = ''svcA''"
    by (simp add: ex_backend_def)
  show ?thesis
    using buildDefaultActions_unresolved [OF i b u t] i u t
    by (simp add: s n)
qed

text \<open>
  C10. Whenever \<^verbatim>\<open>buildDefaultActions\<close> succeeds, the list of actions it returns
  has exactly one element.
\<close>

theorem buildDefaultActions_single:
  "buildDefaultActions pkg options = Inr (actions, None) \<Longrightarrow> \<exists>action. actions = Some [action]"
  by (auto simp: buildDefaultActions_def Let_def
      split: option.splits if_splits prod.splits)

theorem buildDefaultActions_single_witness:
  "buildDefaultActions ex_package ex_request = Inr (Some [Some ex_forward], None)
   \<and> (\<exists>action. Some [Some ex_forward] = Some [action])"
  using buildDefaultActions_single [OF ex_request_actions] ex_request_actions by simp

section \<open>The listener configuration\<close>



text \<open>
  C8, as the code has it. When \<^verbatim>\<open>buildDefaultActions\<close> returns an error,
  \<^verbatim>\<open>buildListenerConfig\<close> returns that very error, with nothing added to it; the
  context of the build stage is added by \<^verbatim>\<open>Reconcile\<close>, which returns the error
  behind the words \<open>failed to build listener config due to\<close> and makes no call.
  (A request for HTTPS must carry its annotations for the builder to reach the
  default actions.)
\<close>

theorem buildListenerConfig_propagates:
  assumes "buildDefaultActions pkg options = Inr (actions, Some err)"
    and "PortData_Scheme (Port options) = elbv2_ProtocolEnumHttps \<longrightarrow>
           IngressAnnos options \<noteq> None"
  shows "(\<exists>config. buildListenerConfig pkg options = Inr (config, Some err))
     \<and> Reconcile controller pkg options calls =
         (Inr (Some (Errorf ''failed to build listener config due to '' err)), calls)"
  using assms
  by (auto simp: Reconcile_def buildListenerConfig_def Let_def split: option.splits)

theorem buildListenerConfig_propagates_witness:
  "buildDefaultActions ex_package ex_unresolved =
     Inr (None, Some ''unable to find targetGroup for backend svcA:8080'')
   \<and> IngressAnnos ex_unresolved = Some ex_annos
   \<and> Reconcile (ex_controller None) ex_package ex_unresolved [] =
       (Inr (Some (''failed to build listener config due to ''
                   @ ''unable to find targetGroup for backend svcA:8080'')), [])"
proof -
  have s: "IngressAnnos ex_unresolved = Some ex_annos"
    by (simp add: ex_unresolved_def ex_request_def)
  then have a: "PortData_Scheme (Port ex_unresolved) = elbv2_ProtocolEnumHttps \<longrightarrow>
        IngressAnnos ex_unresolved \<noteq> None"
    by simp
  show ?thesis
    using buildListenerConfig_propagates [OF ex_unresolved_actions a, of "ex_controller None" "[]"]
      ex_unresolved_actions s
    by (simp add: Errorf_def)
qed

text \<open>
  C8, as the claim states it, fails: on the request whose backend is unresolved the
  configuration builder returns the error of the default actions as it is, without a
  tag of the build stage.
\<close>

theorem buildListenerConfig_wraps_counterexample:
  "buildDefaultActions ex_package ex_unresolved =
     Inr (None, Some ''unable to find targetGroup for backend svcA:8080'')
   \<and> buildListenerConfig ex_package ex_unresolved =
     Inr (\<lparr>listenerConfig_Port = Some 80, listenerConfig_Protocol = Some ''HTTP'',
           listenerConfig_SslPolicy = None, listenerConfig_Certificates = None,
           listenerConfig_DefaultActions = None\<rparr>,
          Some ''unable to find targetGroup for backend svcA:8080'')"
  by (simp add: eval_defs ex_defs)

section \<open>Reconcile\<close>

lemma reconcileLSInstance_no_drift:
  "\<not> LSInstanceNeedsModification instance config \<Longrightarrow>
   reconcileLSInstance controller instance config calls = (Inr (Some instance, None), calls)"
  by (simp add: reconcileLSInstance_def)

lemma reconcileLSInstance_drift_calls:
  "LSInstanceNeedsModification instance config \<Longrightarrow>
   snd (reconcileLSInstance controller instance config calls) =
     calls @ [Call_ModifyListener (ModifyListenerInput instance config)]"
  by (simp add: reconcileLSInstance_def Let_def split: prod.splits option.splits sum.splits)

lemma listenerStage_calls_existing:
  "Instance options = Some instance \<Longrightarrow>
   snd (listenerStage controller options config calls) =
   snd (reconcileLSInstance controller instance config calls)"
  by (auto simp: listenerStage_def split: prod.splits option.splits sum.splits)

lemma Reconcile_calls:
  "buildListenerConfig pkg options = Inr (config, None) \<Longrightarrow>
   snd (Reconcile controller pkg options calls) = snd (listenerStage controller options config calls)
   \<or> (\<exists>instance. snd (Reconcile controller pkg options calls) =
         snd (listenerStage controller options config calls)
           @ [Call_RulesReconcile instance (Ingress options) (IngressAnnos options)
                (TGGroup options)])"
  by (auto simp: Reconcile_def Let_def split: prod.splits option.splits sum.splits)

lemma ex_run_existing:
  "Reconcile (ex_controller None) ex_package (ex_existing arn 80) [] =
     (Inr None, [Call_RulesReconcile (Some (ex_listener arn 80)) (Ingress ex_request)
                   (IngressAnnos ex_request) (TGGroup ex_request)])"
proof -
  have "\<not> LSInstanceNeedsModification (ex_listener arn 80) ex_config"
    by (simp add: needs_modification_iff DeepEqual_def ex_listener_def ex_config_def)
  then have "listenerStage (ex_controller None) (ex_existing arn 80) ex_config [] =
      (Inr (Some (ex_listener arn 80), None), [])"
    by (simp add: listenerStage_def reconcileLSInstance_no_drift ex_existing_fields)
  then show ?thesis
    by (simp add: Reconcile_def ex_build ex_controller_def ex_existing_fields)
qed

text \<open>
  C1. When the request carries an existing listener whose port, protocol, certificates,
  SSL policy and default actions are deeply equal to those of the configuration built
  from the request, the update stage returns that listener as it is and makes no call,
  and the whole of \<^verbatim>\<open>Reconcile\<close> makes no \<^verbatim>\<open>ModifyListener\<close> call: its only call
  is that of the rule controller, on the existing listener.
\<close>

theorem Reconcile_idempotent:
  assumes "Instance options = Some instance"
    and "buildListenerConfig pkg options = Inr (config, None)"
    and "DeepEqual (Listener_Port instance) (listenerConfig_Port config)"
    and "DeepEqual (Listener_Protocol instance) (listenerConfig_Protocol config)"
    and "DeepEqual (Listener_Certificates instance) (listenerConfig_Certificates config)"
    and "DeepEqual (Listener_SslPolicy instance) (listenerConfig_SslPolicy config)"
    and "DeepEqual (Listener_DefaultActions instance) (listenerConfig_DefaultActions config)"
  shows "reconcileLSInstance controller instance config calls = (Inr (Some instance, None), calls)
     \<and> snd (Reconcile controller pkg options calls) =
         calls @ [Call_RulesReconcile (Some instance) (Ingress options) (IngressAnnos options)
                    (TGGroup options)]
     \<and> filter isModify (snd (Reconcile controller pkg options calls)) = filter isModify calls"
proof -
  from assms(3-7) have nd: "\<not> LSInstanceNeedsModification instance config"
    by (simp add: needs_modification_iff)
  then have r: "reconcileLSInstance controller instance config calls =
      (Inr (Some instance, None), calls)"
    by (rule reconcileLSInstance_no_drift)
  then have st: "listenerStage controller options config calls =
      (Inr (Some instance, None), calls)"
    using assms(1) by (simp add: listenerStage_def)
  have c: "snd (Reconcile controller pkg options calls) =
         calls @ [Call_RulesReconcile (Some instance) (Ingress options) (IngressAnnos options)
                    (TGGroup options)]"
    using assms(2) st by (simp add: Reconcile_def Let_def split: option.splits)
  then have "filter isModify (snd (Reconcile controller pkg options calls)) =
      filter isModify calls"
    by (simp add: isModify_def)
  with r c show ?thesis by simp
qed

theorem Reconcile_idempotent_witness:
  "Instance (ex_existing ''ls-1'' 80) = Some (ex_listener ''ls-1'' 80)
   \<and> buildListenerConfig ex_package (ex_existing ''ls-1'' 80) = Inr (ex_config, None)
   \<and> DeepEqual (Listener_Port (ex_listener ''ls-1'' 80)) (listenerConfig_Port ex_config)
   \<and> DeepEqual (Listener_Protocol (ex_listener ''ls-1'' 80)) (listenerConfig_Protocol ex_config)
   \<and> DeepEqual (Listener_Certificates (ex_listener ''ls-1'' 80))
       (listenerConfig_Certificates ex_config)
   \<and> DeepEqual (Listener_SslPolicy (ex_listener ''ls-1'' 80))
       (listenerConfig_SslPolicy ex_config)
   \<and> DeepEqual (Listener_DefaultActions (ex_listener ''ls-1'' 80))
       (listenerConfig_DefaultActions ex_config)
   \<and> reconcileLSInstance (ex_controller None) (ex_listener ''ls-1'' 80) ex_config []
       = (Inr (Some (ex_listener ''ls-1'' 80), None), [])
   \<and> filter isModify
       (snd (Reconcile (ex_controller None) ex_package (ex_existing ''ls-1'' 80) [])) = []"
proof -
  have i: "Instance (ex_existing ''ls-1'' 80) = Some (ex_listener ''ls-1'' 80)"
    by (simp add: ex_existing_def)
  have e1: "DeepEqual (Listener_Port (ex_listener ''ls-1'' 80)) (listenerConfig_Port ex_config)"
    and e2: "DeepEqual (Listener_Protocol (ex_listener ''ls-1'' 80))
               (listenerConfig_Protocol ex_config)"
    and e3: "DeepEqual (Listener_Certificates (ex_listener ''ls-1'' 80))
               (listenerConfig_Certificates ex_config)"
    and e4: "DeepEqual (Listener_SslPolicy (ex_listener ''ls-1'' 80))
               (listenerConfig_SslPolicy ex_config)"
    and e5: "DeepEqual (Listener_DefaultActions (ex_listener ''ls-1'' 80))
               (listenerConfig_DefaultActions ex_config)"
    by (simp_all add: DeepEqual_def ex_listener_def ex_config_def)
  show ?thesis
    using Reconcile_idempotent [OF i ex_build e1 e2 e3 e4 e5, of "ex_controller None" "[]"]
      i e1 e2 e3 e4 e5 ex_build
    by (simp add: isModify_def)
qed

text \<open>
  C2. When the request carries an existing listener and one of the five fields differs
  from the configuration built from the request, \<^verbatim>\<open>Reconcile\<close> makes exactly one
  \<^verbatim>\<open>ModifyListener\<close> call, and its input holds the identifier of the listener and
  all five fields of the new configuration.
\<close>

theorem Reconcile_converges:
  assumes "Instance options = Some instance"
    and "buildListenerConfig pkg options = Inr (config, None)"
    and "\<not> DeepEqual (Listener_Port instance) (listenerConfig_Port config)
       \<or> \<not> DeepEqual (Listener_Protocol instance) (listenerConfig_Protocol config)
       \<or> \<not> DeepEqual (Listener_Certificates instance) (listenerConfig_Certificates config)
       \<or> \<not> DeepEqual (Listener_SslPolicy instance) (listenerConfig_SslPolicy config)
       \<or> \<not> DeepEqual (Listener_DefaultActions instance) (listenerConfig_DefaultActions config)"
  shows "filter isModify (snd (Reconcile controller pkg options calls)) =
         filter isModify calls @
           [Call_ModifyListener
              \<lparr>Modify_ListenerArn = Listener_ListenerArn instance,
               Modify_Port = listenerConfig_Port config,
               Modify_Protocol = listenerConfig_Protocol config,
               Modify_Certificates = listenerConfig_Certificates config,
               Modify_SslPolicy = listenerConfig_SslPolicy config,
               Modify_DefaultActions = listenerConfig_DefaultActions config\<rparr>]"
proof -
  from assms(3) have nd: "LSInstanceNeedsModification instance config"
    by (simp add: needs_modification_iff)
  have st: "snd (listenerStage controller options config calls) =
      calls @ [Call_ModifyListener (ModifyListenerInput instance config)]"
    using assms(1) nd
    by (simp add: listenerStage_calls_existing reconcileLSInstance_drift_calls)
  from Reconcile_calls [OF assms(2), of controller calls] st
  have "filter isModify (snd (Reconcile controller pkg options calls)) =
      filter isModify calls @ [Call_ModifyListener (ModifyListenerInput instance config)]"
    by (auto simp: isModify_def)
  then show ?thesis by (simp add: ModifyListenerInput_def)
qed

theorem Reconcile_converges_witness:
  "Instance (ex_existing ''ls-1'' 8080) = Some (ex_listener ''ls-1'' 8080)
   \<and> buildListenerConfig ex_package (ex_existing ''ls-1'' 8080) = Inr (ex_config, None)
   \<and> \<not> DeepEqual (Listener_Port (ex_listener ''ls-1'' 8080)) (listenerConfig_Port ex_config)
   \<and> filter isModify
       (snd (Reconcile (ex_controller None) ex_package (ex_existing ''ls-1'' 8080) []))
       = [Call_ModifyListener
            \<lparr>Modify_ListenerArn = Some ''ls-1'', Modify_Port = Some 80,
             Modify_Protocol = Some ''HTTP'', Modify_Certificates = None,
             Modify_SslPolicy = None, Modify_DefaultActions = Some [Some ex_forward]\<rparr>]"
proof -
  have i: "Instance (ex_existing ''ls-1'' 8080) = Some (ex_listener ''ls-1'' 8080)"
    by (simp add: ex_existing_def)
  have d: "\<not> DeepEqual (Listener_Port (ex_listener ''ls-1'' 8080))
             (listenerConfig_Port ex_config)"
    by (simp add: DeepEqual_def ex_listener_def ex_config_def)
  show ?thesis
    using Reconcile_converges [OF i ex_build disjI1 [OF d], of "ex_controller None" "[]"]
      i d ex_build
    by (simp add: ex_listener_def ex_config_def)
qed

text \<open>
  C9. When the create call, or the update call, has succeeded and the rule controller
  then fails, \<^verbatim>\<open>Reconcile\<close> returns the error of the rule controller behind the words
  \<open>failed to reconcile rules due to\<close>, and the calls it has made are the create (or
  update) call and the call of the rule controller: no call follows that would undo the
  listener.
\<close>

theorem Reconcile_rules_failure:
  "(Instance options = None
      \<and> buildListenerConfig pkg options = Inr (config, None)
      \<and> CreateListenerWithContext (cloud controller) calls
            (CreateListenerInput (LBArn options) config) = (Some resp, None)
      \<and> index0 (Create_Listeners resp) = Inr created
      \<and> rs_Reconcile (rulesController controller)
            (calls @ [Call_CreateListener (CreateListenerInput (LBArn options) config)])
            created (Ingress options) (IngressAnnos options) (TGGroup options) = Some err
    \<longrightarrow> Reconcile controller pkg options calls =
          (Inr (Some (Errorf ''failed to reconcile rules due to '' err)),
           calls @ [Call_CreateListener (CreateListenerInput (LBArn options) config),
                    Call_RulesReconcile created (Ingress options) (IngressAnnos options)
                      (TGGroup options)]))
   \<and> (Instance options = Some instance
      \<and> buildListenerConfig pkg options = Inr (config, None)
      \<and> LSInstanceNeedsModification instance config
      \<and> ModifyListenerWithContext (cloud controller) calls
            (ModifyListenerInput instance config) = (Some output, None)
      \<and> index0 (Modify_Listeners output) = Inr updated
      \<and> rs_Reconcile (rulesController controller)
            (calls @ [Call_ModifyListener (ModifyListenerInput instance config)])
            updated (Ingress options) (IngressAnnos options) (TGGroup options) = Some err
    \<longrightarrow> Reconcile controller pkg options calls =
          (Inr (Some (Errorf ''failed to reconcile rules due to '' err)),
           calls @ [Call_ModifyListener (ModifyListenerInput instance config),
                    Call_RulesReconcile updated (Ingress options) (IngressAnnos options)
                      (TGGroup options)]))"
  by (simp add: Reconcile_def listenerStage_def newLSInstance_def reconcileLSInstance_def
      Let_def)

theorem Reconcile_rules_failure_witness:
  "Instance ex_request = None
   \<and> buildListenerConfig ex_package ex_request = Inr (ex_config, None)
   \<and> Reconcile (ex_controller (Some ''rule conflict'')) ex_package ex_request [] =
       (Inr (Some (''failed to reconcile rules due to '' @ ''rule conflict'')),
        [Call_CreateListener (CreateListenerInput (LBArn ex_request) ex_config),
         Call_RulesReconcile (Some (ex_listener ''ls-new'' 80)) (Ingress ex_request)
           (IngressAnnos ex_request) (TGGroup ex_request)])
   \<and> Instance (ex_existing ''ls-1'' 8080) = Some (ex_listener ''ls-1'' 8080)
   \<and> LSInstanceNeedsModification (ex_listener ''ls-1'' 8080) ex_config
   \<and> Reconcile (ex_controller (Some ''rule conflict'')) ex_package (ex_existing ''ls-1'' 8080) [] =
       (Inr (Some (''failed to reconcile rules due to '' @ ''rule conflict'')),
        [Call_ModifyListener (ModifyListenerInput (ex_listener ''ls-1'' 8080) ex_config),
         Call_RulesReconcile (Some (ex_listener ''ls-1'' 80)) (Ingress ex_request)
           (IngressAnnos ex_request) (TGGroup ex_request)])"
proof -
  have i: "Instance ex_request = None"
    by (simp add: ex_request_def)
  have c: "CreateListenerWithContext (cloud (ex_controller (Some ''rule conflict''))) []
            (CreateListenerInput (LBArn ex_request) ex_config) =
           (Some \<lparr>Create_Listeners = Some [Some (ex_listener ''ls-new'' 80)]\<rparr>, None)"
    by (simp add: ex_controller_def ex_cloud_def CreateListenerInput_def ex_config_def
        ex_listener_def ex_request_def)
  have x: "index0 (Create_Listeners \<lparr>Create_Listeners = Some [Some (ex_listener ''ls-new'' 80)]\<rparr>)
            = Inr (Some (ex_listener ''ls-new'' 80))"
    by (simp add: index0_def)
  have r: "rs_Reconcile (rulesController (ex_controller (Some ''rule conflict''))) past
             listener ingress annos tgGroup = Some ''rule conflict''"
    for past listener ingress annos tgGroup
    by (simp add: ex_controller_def)
  have i': "Instance (ex_existing ''ls-1'' 8080) = Some (ex_listener ''ls-1'' 8080)"
    by (simp add: ex_existing_def)
  have n: "LSInstanceNeedsModification (ex_listener ''ls-1'' 8080) ex_config"
    by (simp add: needs_modification_iff DeepEqual_def ex_listener_def ex_config_def)
  have m: "ModifyListenerWithContext (cloud (ex_controller (Some ''rule conflict''))) []
            (ModifyListenerInput (ex_listener ''ls-1'' 8080) ex_config) =
           (Some \<lparr>Modify_Listeners = Some [Some (ex_listener ''ls-1'' 80)]\<rparr>, None)"
    by (simp add: ex_controller_def ex_cloud_def ModifyListenerInput_def ex_config_def
        ex_listener_def)
  have y: "index0 (Modify_Listeners \<lparr>Modify_Listeners = Some [Some (ex_listener ''ls-1'' 80)]\<rparr>)
            = Inr (Some (ex_listener ''ls-1'' 80))"
    by (simp add: index0_def)
  have create: "Reconcile (ex_controller (Some ''rule conflict'')) ex_package ex_request [] =
       (Inr (Some (''failed to reconcile rules due to '' @ ''rule conflict'')),
        [Call_CreateListener (CreateListenerInput (LBArn ex_request) ex_config),
         Call_RulesReconcile (Some (ex_listener ''ls-new'' 80)) (Ingress ex_request)
           (IngressAnnos ex_request) (TGGroup ex_request)])"
    using Reconcile_rules_failure [of ex_request ex_package ex_config
        "ex_controller (Some ''rule conflict'')" "[]"
        "\<lparr>Create_Listeners = Some [Some (ex_listener ''ls-new'' 80)]\<rparr>"
        "Some (ex_listener ''ls-new'' 80)" "''rule conflict''"] i ex_build_request c x r
    by (simp add: Errorf_def)
  have update: "Reconcile (ex_controller (Some ''rule conflict'')) ex_package
        (ex_existing ''ls-1'' 8080) [] =
       (Inr (Some (''failed to reconcile rules due to '' @ ''rule conflict'')),
        [Call_ModifyListener (ModifyListenerInput (ex_listener ''ls-1'' 8080) ex_config),
         Call_RulesReconcile (Some (ex_listener ''ls-1'' 80)) (Ingress ex_request)
           (IngressAnnos ex_request) (TGGroup ex_request)])"
    using Reconcile_rules_failure [of "ex_existing ''ls-1'' 8080" ex_package ex_config
        "ex_controller (Some ''rule conflict'')" "[]" _ _ "''rule conflict''"
        "ex_listener ''ls-1'' 8080"
        "\<lparr>Modify_Listeners = Some [Some (ex_listener ''ls-1'' 80)]\<rparr>"
        "Some (ex_listener ''ls-1'' 80)"] i' ex_build n m y r
    by (simp add: Errorf_def ex_existing_fields)
  from i ex_build_request create i' n update show ?thesis by blast
qed

text \<open>
  What a \<^verbatim>\<open>nil\<close> return of \<^verbatim>\<open>Reconcile\<close> tells: the configuration was built, and
  the rule controller was called last, answered \<^verbatim>\<open>nil\<close> and was given the listener
  of the listener stage.
\<close>

lemma Reconcile_nil_only:
  assumes "fst (Reconcile controller pkg options calls) = Inr None"
  shows "\<exists>config resulting calls'.
        buildListenerConfig pkg options = Inr (config, None)
      \<and> snd (Reconcile controller pkg options calls) =
          calls' @ [Call_RulesReconcile resulting (Ingress options) (IngressAnnos options)
                      (TGGroup options)]
      \<and> rs_Reconcile (rulesController controller) calls' resulting (Ingress options)
          (IngressAnnos options) (TGGroup options) = None
      \<and> (case Instance options of
            None \<Rightarrow>
              calls' = calls @ [Call_CreateListener (CreateListenerInput (LBArn options) config)]
              \<and> (\<exists>resp. CreateListenerWithContext (cloud controller) calls
                           (CreateListenerInput (LBArn options) config) = (Some resp, None)
                         \<and> index0 (Create_Listeners resp) = Inr resulting)
          | Some instance \<Rightarrow>
              if LSInstanceNeedsModification instance config then
                calls' = calls @ [Call_ModifyListener (ModifyListenerInput instance config)]
                \<and> (\<exists>output. ModifyListenerWithContext (cloud controller) calls
                             (ModifyListenerInput instance config) = (Some output, None)
                           \<and> index0 (Modify_Listeners output) = Inr resulting)
              else calls' = calls \<and> resulting = Some instance)"
proof -
  from assms obtain config where b: "buildListenerConfig pkg options = Inr (config, None)"
    by (auto simp: Reconcile_def split: sum.splits prod.splits option.splits)
  from assms b obtain resulting calls' where
    st: "listenerStage controller options config calls = (Inr (resulting, None), calls')"
    by (auto simp: Reconcile_def Let_def split: sum.splits prod.splits option.splits)
  from assms b st have
    rs: "rs_Reconcile (rulesController controller) calls' resulting (Ingress options)
          (IngressAnnos options) (TGGroup options) = None"
    and c: "snd (Reconcile controller pkg options calls) =
          calls' @ [Call_RulesReconcile resulting (Ingress options) (IngressAnnos options)
                      (TGGroup options)]"
    by (auto simp: Reconcile_def Let_def split: option.splits)
  have "case Instance options of
            None \<Rightarrow>
              calls' = calls @ [Call_CreateListener (CreateListenerInput (LBArn options) config)]
              \<and> (\<exists>resp. CreateListenerWithContext (cloud controller) calls
                           (CreateListenerInput (LBArn options) config) = (Some resp, None)
                         \<and> index0 (Create_Listeners resp) = Inr resulting)
          | Some instance \<Rightarrow>
              if LSInstanceNeedsModification instance config then
                calls' = calls @ [Call_ModifyListener (ModifyListenerInput instance config)]
                \<and> (\<exists>output. ModifyListenerWithContext (cloud controller) calls
                             (ModifyListenerInput instance config) = (Some output, None)
                           \<and> index0 (Modify_Listeners output) = Inr resulting)
              else calls' = calls \<and> resulting = Some instance"
    using st
    by (auto simp: listenerStage_def newLSInstance_def reconcileLSInstance_def Let_def
        split: sum.splits prod.splits option.splits if_splits)
  with b rs c show ?thesis by blast
qed

lemma ex_run_create:
  "Reconcile (ex_controller None) ex_package ex_request [] =
     (Inr None,
      [Call_CreateListener (CreateListenerInput (LBArn ex_request) ex_config),
       Call_RulesReconcile (Some (ex_listener ''ls-new'' 80)) (Ingress ex_request)
         (IngressAnnos ex_request) (TGGroup ex_request)])"
proof -
  have "newLSInstance (ex_controller None) (LBArn ex_request) ex_config [] =
      (Inr (Some (ex_listener ''ls-new'' 80), None),
       [Call_CreateListener (CreateListenerInput (LBArn ex_request) ex_config)])"
    by (simp add: newLSInstance_def index0_def ex_controller_def ex_cloud_def
        CreateListenerInput_def ex_config_def ex_listener_def ex_request_def)
  moreover have "Instance ex_request = None"
    by (simp add: ex_request_def)
  ultimately have "listenerStage (ex_controller None) ex_request ex_config [] =
      (Inr (Some (ex_listener ''ls-new'' 80), None),
       [Call_CreateListener (CreateListenerInput (LBArn ex_request) ex_config)])"
    by (simp add: listenerStage_def)
  then show ?thesis
    by (simp add: Reconcile_def ex_build_request ex_controller_def)
qed

text \<open>
  C7, as the code has it. \<^verbatim>\<open>Reconcile\<close> returns an error and nothing else. When the
  configuration is built, the create call (for a request without an instance) or the
  update call (for an instance that has drifted) succeeds and the rule controller
  succeeds, \<^verbatim>\<open>Reconcile\<close> returns \<^verbatim>\<open>nil\<close>, and the last thing it does is to hand
  the resulting listener to the rule controller: the first listener of the answer to
  the create call, the first listener of the answer to the update call, or, for an
  instance that has not drifted, the instance of the request, with no cloud call made.
  Conversely, a \<^verbatim>\<open>nil\<close> return happens in one of these three ways only.
\<close>

theorem Reconcile_success:
  "(Instance options = None
      \<and> buildListenerConfig pkg options = Inr (config, None)
      \<and> CreateListenerWithContext (cloud controller) calls
            (CreateListenerInput (LBArn options) config) = (Some resp, None)
      \<and> index0 (Create_Listeners resp) = Inr created
      \<and> rs_Reconcile (rulesController controller)
            (calls @ [Call_CreateListener (CreateListenerInput (LBArn options) config)])
            created (Ingress options) (IngressAnnos options) (TGGroup options) = None
    \<longrightarrow> Reconcile controller pkg options calls =
          (Inr None,
           calls @ [Call_CreateListener (CreateListenerInput (LBArn options) config),
                    Call_RulesReconcile created (Ingress options) (IngressAnnos options)
                      (TGGroup options)]))
   \<and> (Instance options = Some instance
      \<and> buildListenerConfig pkg options = Inr (config, None)
      \<and> LSInstanceNeedsModification instance config
      \<and> ModifyListenerWithContext (cloud controller) calls
            (ModifyListenerInput instance config) = (Some output, None)
      \<and> index0 (Modify_Listeners output) = Inr updated
      \<and> rs_Reconcile (rulesController controller)
            (calls @ [Call_ModifyListener (ModifyListenerInput instance config)])
            updated (Ingress options) (IngressAnnos options) (TGGroup options) = None
    \<longrightarrow> Reconcile controller pkg options calls =
          (Inr None,
           calls @ [Call_ModifyListener (ModifyListenerInput instance config),
                    Call_RulesReconcile updated (Ingress options) (IngressAnnos options)
                      (TGGroup options)]))
   \<and> (Instance options = Some instance
      \<and> buildListenerConfig pkg options = Inr (config, None)
      \<and> \<not> LSInstanceNeedsModification instance config
      \<and> rs_Reconcile (rulesController controller) calls (Some instance)
            (Ingress options) (IngressAnnos options) (TGGroup options) = None
    \<longrightarrow> Reconcile controller pkg options calls =
          (Inr None,
           calls @ [Call_RulesReconcile (Some instance) (Ingress options)
                      (IngressAnnos options) (TGGroup options)]))
   \<and> (fst (Reconcile controller pkg options calls) = Inr None \<longrightarrow>
        (\<exists>config resulting calls'.
            buildListenerConfig pkg options = Inr (config, None)
          \<and> snd (Reconcile controller pkg options calls) =
              calls' @ [Call_RulesReconcile resulting (Ingress options) (IngressAnnos options)
                          (TGGroup options)]
          \<and> rs_Reconcile (rulesController controller) calls' resulting (Ingress options)
              (IngressAnnos options) (TGGroup options) = None
          \<and> (case Instance options of
                None \<Rightarrow>
                  calls' = calls @ [Call_CreateListener
                                      (CreateListenerInput (LBArn options) config)]
                  \<and> (\<exists>resp. CreateListenerWithContext (cloud controller) calls
                               (CreateListenerInput (LBArn options) config) = (Some resp, None)
                             \<and> index0 (Create_Listeners resp) = Inr resulting)
              | Some instance \<Rightarrow>
                  if LSInstanceNeedsModification instance config then
                    calls' = calls @ [Call_ModifyListener (ModifyListenerInput instance config)]
                    \<and> (\<exists>output. ModifyListenerWithContext (cloud controller) calls
                                 (ModifyListenerInput instance config) = (Some output, None)
                               \<and> index0 (Modify_Listeners output) = Inr resulting)
                  else calls' = calls \<and> resulting = Some instance)))"
  apply (intro conjI)
     apply (simp add: Reconcile_def listenerStage_def newLSInstance_def Let_def)
    apply (simp add: Reconcile_def listenerStage_def reconcileLSInstance_def Let_def)
   apply (simp add: Reconcile_def listenerStage_def reconcileLSInstance_def Let_def)
  apply (rule impI)
  apply (erule Reconcile_nil_only)
  done

theorem Reconcile_success_witness:
  "Instance ex_request = None
   \<and> buildListenerConfig ex_package ex_request = Inr (ex_config, None)
   \<and> Reconcile (ex_controller None) ex_package ex_request [] =
       (Inr None,
        [Call_CreateListener (CreateListenerInput (LBArn ex_request) ex_config),
         Call_RulesReconcile (Some (ex_listener ''ls-new'' 80)) (Ingress ex_request)
           (IngressAnnos ex_request) (TGGroup ex_request)])
   \<and> Instance (ex_existing ''ls-1'' 8080) = Some (ex_listener ''ls-1'' 8080)
   \<and> LSInstanceNeedsModification (ex_listener ''ls-1'' 8080) ex_config
   \<and> Reconcile (ex_controller None) ex_package (ex_existing ''ls-1'' 8080) [] =
       (Inr None,
        [Call_ModifyListener (ModifyListenerInput (ex_listener ''ls-1'' 8080) ex_config),
         Call_RulesReconcile (Some (ex_listener ''ls-1'' 80)) (Ingress ex_request)
           (IngressAnnos ex_request) (TGGroup ex_request)])
   \<and> Instance (ex_existing ''ls-1'' 80) = Some (ex_listener ''ls-1'' 80)
   \<and> \<not> LSInstanceNeedsModification (ex_listener ''ls-1'' 80) ex_config
   \<and> Reconcile (ex_controller None) ex_package (ex_existing ''ls-1'' 80) [] =
       (Inr None,
        [Call_RulesReconcile (Some (ex_listener ''ls-1'' 80)) (Ingress ex_request)
           (IngressAnnos ex_request) (TGGroup ex_request)])
   \<and> (\<exists>config resulting calls'.
        buildListenerConfig ex_package ex_request = Inr (config, None)
      \<and> snd (Reconcile (ex_controller None) ex_package ex_request []) =
          calls' @ [Call_RulesReconcile resulting (Ingress ex_request)
                      (IngressAnnos ex_request) (TGGroup ex_request)]
      \<and> calls' = [Call_CreateListener (CreateListenerInput (LBArn ex_request) config)])"
proof -
  have i: "Instance ex_request = None"
    by (simp add: ex_request_def)
  have c: "CreateListenerWithContext (cloud (ex_controller None)) []
            (CreateListenerInput (LBArn ex_request) ex_config) =
           (Some \<lparr>Create_Listeners = Some [Some (ex_listener ''ls-new'' 80)]\<rparr>, None)"
    by (simp add: ex_controller_def ex_cloud_def CreateListenerInput_def ex_config_def
        ex_listener_def ex_request_def)
  have x: "index0 (Create_Listeners \<lparr>Create_Listeners = Some [Some (ex_listener ''ls-new'' 80)]\<rparr>)
            = Inr (Some (ex_listener ''ls-new'' 80))"
    by (simp add: index0_def)
  have r: "rs_Reconcile (rulesController (ex_controller None)) past
             listener ingress annos tgGroup = None"
    for past listener ingress annos tgGroup
    by (simp add: ex_controller_def)
  have i': "Instance (ex_existing ''ls-1'' 8080) = Some (ex_listener ''ls-1'' 8080)"
    by (simp add: ex_existing_def)
  have n: "LSInstanceNeedsModification (ex_listener ''ls-1'' 8080) ex_config"
    by (simp add: needs_modification_iff DeepEqual_def ex_listener_def ex_config_def)
  have m: "ModifyListenerWithContext (cloud (ex_controller None)) []
            (ModifyListenerInput (ex_listener ''ls-1'' 8080) ex_config) =
           (Some \<lparr>Modify_Listeners = Some [Some (ex_listener ''ls-1'' 80)]\<rparr>, None)"
    by (simp add: ex_controller_def ex_cloud_def ModifyListenerInput_def ex_config_def
        ex_listener_def)
  have y: "index0 (Modify_Listeners \<lparr>Modify_Listeners = Some [Some (ex_listener ''ls-1'' 80)]\<rparr>)
            = Inr (Some (ex_listener ''ls-1'' 80))"
    by (simp add: index0_def)
  have i'': "Instance (ex_existing ''ls-1'' 80) = Some (ex_listener ''ls-1'' 80)"
    by (simp add: ex_existing_def)
  have n': "\<not> LSInstanceNeedsModification (ex_listener ''ls-1'' 80) ex_config"
    by (simp add: needs_modification_iff DeepEqual_def ex_listener_def ex_config_def)
  have create: "Reconcile (ex_controller None) ex_package ex_request [] =
       (Inr None,
        [Call_CreateListener (CreateListenerInput (LBArn ex_request) ex_config),
         Call_RulesReconcile (Some (ex_listener ''ls-new'' 80)) (Ingress ex_request)
           (IngressAnnos ex_request) (TGGroup ex_request)])"
    using Reconcile_success [of ex_request ex_package ex_config "ex_controller None" "[]"
        "\<lparr>Create_Listeners = Some [Some (ex_listener ''ls-new'' 80)]\<rparr>"
        "Some (ex_listener ''ls-new'' 80)"] i ex_build_request c x r
    by simp
  have update: "Reconcile (ex_controller None) ex_package (ex_existing ''ls-1'' 8080) [] =
       (Inr None,
        [Call_ModifyListener (ModifyListenerInput (ex_listener ''ls-1'' 8080) ex_config),
         Call_RulesReconcile (Some (ex_listener ''ls-1'' 80)) (Ingress ex_request)
           (IngressAnnos ex_request) (TGGroup ex_request)])"
    using Reconcile_success [of "ex_existing ''ls-1'' 8080" ex_package ex_config
        "ex_controller None" "[]" _ _ "ex_listener ''ls-1'' 8080"
        "\<lparr>Modify_Listeners = Some [Some (ex_listener ''ls-1'' 80)]\<rparr>"
        "Some (ex_listener ''ls-1'' 80)"] i' ex_build n m y r
    by (simp add: ex_existing_fields)
  have keep: "Reconcile (ex_controller None) ex_package (ex_existing ''ls-1'' 80) [] =
       (Inr None,
        [Call_RulesReconcile (Some (ex_listener ''ls-1'' 80)) (Ingress ex_request)
           (IngressAnnos ex_request) (TGGroup ex_request)])"
    using Reconcile_success [of "ex_existing ''ls-1'' 80" ex_package ex_config
        "ex_controller None" "[]" _ _ "ex_listener ''ls-1'' 80"] i'' ex_build n' r
    by (simp add: ex_existing_fields)
  have h: "fst (Reconcile (ex_controller None) ex_package ex_request []) = Inr None"
    by (simp add: create)
  from Reconcile_success [of ex_request ex_package ex_config "ex_controller None" "[]",
      THEN conjunct2, THEN conjunct2, THEN conjunct2, THEN mp, OF h] i
  have conv: "\<exists>config resulting calls'.
        buildListenerConfig ex_package ex_request = Inr (config, None)
      \<and> snd (Reconcile (ex_controller None) ex_package ex_request []) =
          calls' @ [Call_RulesReconcile resulting (Ingress ex_request)
                      (IngressAnnos ex_request) (TGGroup ex_request)]
      \<and> calls' = [Call_CreateListener (CreateListenerInput (LBArn ex_request) config)]"
    by auto
  from i ex_build_request create i' n update i'' n' keep conv show ?thesis
    by blast
qed

text \<open>
  C7, as the claim states it, fails: a successful run that creates a listener and two
  successful runs on requests whose existing listeners differ all return the same value,
  \<^verbatim>\<open>nil\<close>, to the caller, while the resulting listeners, handed to the rule
  controller, differ.
\<close>

theorem Reconcile_returns_listener_counterexample:
  "fst (Reconcile (ex_controller None) ex_package ex_request []) = Inr None
   \<and> fst (Reconcile (ex_controller None) ex_package (ex_existing ''ls-1'' 80) []) = Inr None
   \<and> fst (Reconcile (ex_controller None) ex_package (ex_existing ''ls-2'' 80) []) = Inr None
   \<and> snd (Reconcile (ex_controller None) ex_package ex_request []) =
       [Call_CreateListener (CreateListenerInput (LBArn ex_request) ex_config),
        Call_RulesReconcile (Some (ex_listener ''ls-new'' 80)) (Ingress ex_request)
          (IngressAnnos ex_request) (TGGroup ex_request)]
   \<and> snd (Reconcile (ex_controller None) ex_package (ex_existing ''ls-1'' 80) []) =
       [Call_RulesReconcile (Some (ex_listener ''ls-1'' 80)) (Ingress ex_request)
          (IngressAnnos ex_request) (TGGroup ex_request)]
   \<and> snd (Reconcile (ex_controller None) ex_package (ex_existing ''ls-2'' 80) []) =
       [Call_RulesReconcile (Some (ex_listener ''ls-2'' 80)) (Ingress ex_request)
          (IngressAnnos ex_request) (TGGroup ex_request)]
   \<and> ex_listener ''ls-1'' 80 \<noteq> ex_listener ''ls-2'' 80
   \<and> ex_listener ''ls-new'' 80 \<noteq> ex_listener ''ls-1'' 80"
  by (simp add: ex_run_existing ex_run_create) (simp add: ex_listener_def)

end
